theory Spec2Isabelle
  imports Complex_Main "HOL-Library.Sublist"
begin

section \<open>Python strings\<close>

text \<open>
  A Python \<open>str\<close> is a sequence of Unicode code points, and \<open>len\<close> counts code points.
  A code point is a natural number and a string a list of them; \<open>ascii\<close> writes an ASCII
  literal, and the few non-ASCII letters of the source's literals are given by number
  (\<open>231\<close> is c-cedilla, \<open>227\<close> a-tilde, \<open>245\<close> o-tilde, \<open>234\<close> e-circumflex,
  \<open>225\<close> a-acute, \<open>237\<close> i-acute, \<open>8226\<close> the bullet).
\<close>

type_synonym cp = nat
type_synonym ustr = "cp list"

definition ascii :: "string \<Rightarrow> ustr" where
  "ascii s = map of_char s"

text \<open>
  The tables of the Unicode character database, which the Python runtime supplies and the
  repository does not contain, are parameters of the model:
  \<^item> \<open>lower_full c\<close>: the full lower-case mapping of one code point (one to three code points);
  \<^item> \<open>final_sigma s i\<close>: whether the capital sigma at index \<open>i\<close> of \<open>s\<close> is in final position
    (preceded by a cased letter and not followed by one), the one context-dependent rule
    of \<open>str.lower\<close>;
  \<^item> \<open>is_decimal c\<close>: the class \<open>\d\<close> of the \<open>re\<close> module on \<open>str\<close> patterns (category Nd);
  \<^item> \<open>nfkd s\<close>: \<open>unicodedata.normalize("NFKD", s)\<close>.
\<close>

record ucd =
  lower_full :: "cp \<Rightarrow> ustr"
  final_sigma :: "ustr \<Rightarrow> nat \<Rightarrow> bool"
  is_decimal :: "cp \<Rightarrow> bool"
  nfkd :: "ustr \<Rightarrow> ustr"

text \<open>
  The restriction of those tables to ASCII: on a string of ASCII characters it computes
  what Python computes (only \<open>A\<close> to \<open>Z\<close> have a lower-case form, the decimal digits
  are \<open>0\<close> to \<open>9\<close>, and NFKD leaves the string unchanged).
\<close>

definition ascii_ucd :: ucd where
  "ascii_ucd =
     \<lparr> lower_full = (\<lambda>c. [if 65 \<le> c \<and> c \<le> 90 then c + 32 else c]),
       final_sigma = (\<lambda>s i. False),
       is_decimal = (\<lambda>c. 48 \<le> c \<and> c \<le> 57),
       nfkd = (\<lambda>s. s) \<rparr>"

text \<open>
  White space as \<open>str.strip\<close>, \<open>str.split\<close> and the class \<open>\s\<close> see it
  (\<open>Py_UNICODE_ISSPACE\<close>): the ASCII controls 9 to 13 and 28 to 31, the space, and the
  Unicode spaces and line separators.
\<close>

definition is_space :: "cp \<Rightarrow> bool" where
  "is_space c \<longleftrightarrow>
     (9 \<le> c \<and> c \<le> 13) \<or> (28 \<le> c \<and> c \<le> 32) \<or> c = 133 \<or> c = 160 \<or> c = 5760 \<or>
     (8192 \<le> c \<and> c \<le> 8202) \<or> c = 8232 \<or> c = 8233 \<or> c = 8239 \<or> c = 8287 \<or> c = 12288"

text \<open>\<open>s.strip()\<close>: leading and trailing white space removed.\<close>

definition py_strip :: "ustr \<Rightarrow> ustr" where
  "py_strip s = rev (dropWhile is_space (rev (dropWhile is_space s)))"

text \<open>
  \<open>s.lower()\<close>: every code point is replaced by its full lower-case mapping, except the
  capital sigma (\<open>931\<close>), which becomes the final sigma (\<open>962\<close>) or the small sigma
  (\<open>963\<close>) depending on its context in the whole string.
\<close>

fun lower_from :: "ucd \<Rightarrow> ustr \<Rightarrow> nat \<Rightarrow> ustr \<Rightarrow> ustr" where
  "lower_from U s i [] = []"
| "lower_from U s i (c # cs) =
     (if c = 931 then [if final_sigma U s i then 962 else 963] else lower_full U c)
       @ lower_from U s (Suc i) cs"

definition py_lower :: "ucd \<Rightarrow> ustr \<Rightarrow> ustr" where
  "py_lower U s = lower_from U s 0 s"

text \<open>\<open>sub in s\<close> on strings: \<open>sub\<close> occurs in \<open>s\<close> as a contiguous run.\<close>

fun py_in :: "ustr \<Rightarrow> ustr \<Rightarrow> bool" where
  "py_in sub [] = (sub = [])"
| "py_in sub (c # cs) = (prefix sub (c # cs) \<or> py_in sub cs)"

section \<open>Validation results\<close>

text \<open>
  Each reason of the source is a message template, some with interpolated values. A
  constructor stands for a template and carries the values interpolated into it; the
  lexical-diversity reasons carry the two counts whose quotient the message prints.
\<close>

datatype reason =
    EmptyContent
  | ContentTooShort nat
  | SizeAcceptable
  | SizeAdequate
  | SizeExcellent
  | CriticalFound nat nat int
  | ContextFound nat nat int
  | DiversityGood nat nat
  | DiversityModerate nat nat
  | DiversityLow nat nat
  | ErrorIndicators
  | NoErrorIndicators
  | ListStructure
  | TitleMissing
  | TitleGeneric ustr
  | TitleTooShort ustr
  | TitleTooLong ustr
  | TitleValid
  | CompanyMissing
  | CompanyGeneric ustr
  | CompanyTooShort ustr
  | CompanyTooLong ustr
  | CompanyValid

record validation_result =
  is_valid :: bool
  score :: int
  reasons :: "reason list"

definition ValidationResult :: "bool \<Rightarrow> int \<Rightarrow> reason list \<Rightarrow> validation_result" where
  "ValidationResult v n rs = \<lparr> is_valid = v, score = n, reasons = rs \<rparr>"

section \<open>The details validator\<close>

text \<open>\<open>re.sub(r"[^a-z0-9]+", "", value.lower())\<close>: only \<open>a\<close>-\<open>z\<close> and \<open>0\<close>-\<open>9\<close> are kept.\<close>

definition lower_alnum :: "cp \<Rightarrow> bool" where
  "lower_alnum c \<longleftrightarrow> (97 \<le> c \<and> c \<le> 122) \<or> (48 \<le> c \<and> c \<le> 57)"

definition normalize_generic_term :: "ucd \<Rightarrow> ustr \<Rightarrow> ustr" where
  "normalize_generic_term U v = filter lower_alnum (py_lower U v)"

definition generic_terms :: "ustr list" where
  "generic_terms =
     [ascii ''not found'', ascii ''n/a'', ascii ''na'', ascii ''unknown'', ascii ''tbd'',
      ascii ''to be determined'', ascii ''n'' @ [227] @ ascii ''o encontrado'',
      ascii ''desconhecido'', ascii ''error'', ascii ''none'', ascii ''null'',
      ascii ''company'']"

definition normalized_generics :: "ucd \<Rightarrow> ustr set" where
  "normalized_generics U = set (map (normalize_generic_term U) generic_terms)"

definition validate_and_score_job_details :: "ucd \<Rightarrow> ustr \<Rightarrow> ustr \<Rightarrow> validation_result" where
  "validate_and_score_job_details U job_title company =
     (let title_lower = py_strip (py_lower U job_title);
          company_lower = py_strip (py_lower U company);
          title_normalized = normalize_generic_term U job_title;
          company_normalized = normalize_generic_term U company
      in
      if job_title = [] \<or> length title_lower = 0 then ValidationResult False 0 [TitleMissing]
      else if title_normalized \<in> normalized_generics U
        then ValidationResult False 0 [TitleGeneric job_title]
      else
        let (score1, reasons1) =
              (if length title_lower < 5 then (0, [TitleTooShort job_title])
               else if length title_lower > 100 then (0, [TitleTooLong job_title])
               else (0 + 50, [TitleValid]))
        in
        if company = [] \<or> length company_lower = 0 then ValidationResult False 0 [CompanyMissing]
        else if company_normalized \<in> normalized_generics U
          then ValidationResult False 0 [CompanyGeneric company]
        else
          let (score2, reasons2) =
                (if length company_lower < 2 then (score1, reasons1 @ [CompanyTooShort company])
                 else if length company_lower > 100
                   then (score1, reasons1 @ [CompanyTooLong company])
                 else (score1 + 50, reasons1 @ [CompanyValid]))
          in ValidationResult (score2 \<ge> 90) score2 reasons2)"


section \<open>The content validator\<close>

definition critical_keywords :: "ustr list" where
  "critical_keywords =
     [ascii ''responsibilities'', ascii ''requirements'', ascii ''qualifications'',
      ascii ''experience'', ascii ''responsabilidades'', ascii ''requisitos'',
      ascii ''qualifica'' @ [231, 245] @ ascii ''es'',
      ascii ''experi'' @ [234] @ ascii ''ncia'']"

definition context_keywords :: "ustr list" where
  "context_keywords =
     [ascii ''apply'', ascii ''application'', ascii ''candidate'', ascii ''candidatar'',
      ascii ''aplicar'', ascii ''join'', ascii ''team'', ascii ''position'', ascii ''role'',
      ascii ''vaga'', ascii ''cargo'', ascii ''equipe'']"

definition error_indicators :: "ustr list" where
  "error_indicators =
     [ascii ''page not found'', ascii ''404'', ascii ''error'', ascii ''not available'',
      ascii ''p'' @ [225] @ ascii ''gina n'' @ [227] @ ascii ''o encontrada'',
      ascii ''erro'', ascii ''indispon'' @ [237] @ ascii ''vel'', ascii ''access denied'']"

text \<open>\<open>s.split()\<close>: the maximal runs of characters that are not white space.\<close>

fun split_from :: "ustr \<Rightarrow> ustr \<Rightarrow> ustr list" where
  "split_from cur [] = (if cur = [] then [] else [cur])"
| "split_from cur (c # cs) =
     (if is_space c then (if cur = [] then split_from [] cs else cur # split_from [] cs)
      else split_from (cur @ [c]) cs)"

definition py_split :: "ustr \<Rightarrow> ustr list" where
  "py_split s = split_from [] s"

text \<open>
  \<open>re.search(r"[-\<bullet>*]\s|^\d+\.\s", content, re.MULTILINE)\<close> finds a match if, at some
  position, a hyphen, bullet or asterisk is followed by white space, or, at the start of a
  line (the start of the text or just after a line feed), one or more decimal digits are
  followed by a full stop and white space.
\<close>

fun bullet_here :: "ustr \<Rightarrow> bool" where
  "bullet_here (c # d # r) = ((c = 45 \<or> c = 8226 \<or> c = 42) \<and> is_space d)"
| "bullet_here r = False"

fun digits_dot_space :: "ucd \<Rightarrow> ustr \<Rightarrow> bool" where
  "digits_dot_space U (c # d # r) =
     ((c = 46 \<and> is_space d) \<or> (is_decimal U c \<and> digits_dot_space U (d # r)))"
| "digits_dot_space U r = False"

fun numbered_here :: "ucd \<Rightarrow> ustr \<Rightarrow> bool" where
  "numbered_here U (c # r) = (is_decimal U c \<and> digits_dot_space U r)"
| "numbered_here U [] = False"

fun search_list :: "ucd \<Rightarrow> bool \<Rightarrow> ustr \<Rightarrow> bool" where
  "search_list U line_start [] = False"
| "search_list U line_start (c # cs) =
     (bullet_here (c # cs) \<or> (line_start \<and> numbered_here U (c # cs)) \<or>
      search_list U (c = 10) cs)"

definition has_list_structure :: "ucd \<Rightarrow> ustr \<Rightarrow> bool" where
  "has_list_structure U content = search_list U True content"

text \<open>
  The function keeps a running \<open>score\<close> and a list of \<open>reasons\<close>; each block of the source
  is a step on that pair, in the order of the source.
\<close>

type_synonym scoring = "int \<times> reason list"

text \<open>Layer 1, structural: the length of the stripped content.\<close>

definition structural_layer :: "nat \<Rightarrow> scoring \<Rightarrow> scoring" where
  "structural_layer len = (\<lambda>(score, reasons).
     if len < 500 then (score, reasons @ [ContentTooShort len])
     else if len < 1000 then (score + 10, reasons @ [SizeAcceptable])
     else if len < 3000 then (score + 20, reasons @ [SizeAdequate])
     else (score + 30, reasons @ [SizeExcellent]))"

text \<open>Layer 2, semantic: keywords present in the lower-cased content.\<close>

definition found_in :: "ustr list \<Rightarrow> ustr \<Rightarrow> nat" where
  "found_in keywords content_lower = length (filter (\<lambda>kw. py_in kw content_lower) keywords)"

definition critical_score :: "ustr \<Rightarrow> int" where
  "critical_score content_lower = min 20 (int (found_in critical_keywords content_lower) * 5)"

definition context_score :: "ustr \<Rightarrow> int" where
  "context_score content_lower = min 20 (int (found_in context_keywords content_lower) * 2)"

definition critical_layer :: "ustr \<Rightarrow> scoring \<Rightarrow> scoring" where
  "critical_layer content_lower = (\<lambda>(score, reasons).
     (score + critical_score content_lower,
      reasons @ [CriticalFound (found_in critical_keywords content_lower)
                   (length critical_keywords) (critical_score content_lower)]))"

definition context_layer :: "ustr \<Rightarrow> scoring \<Rightarrow> scoring" where
  "context_layer content_lower = (\<lambda>(score, reasons).
     (score + context_score content_lower,
      reasons @ [ContextFound (found_in context_keywords content_lower)
                   (length context_keywords) (context_score content_lower)]))"

text \<open>
  Layer 3, heuristic. The diversity ratio is the float quotient of two word counts; it is
  compared with \<open>0.5\<close> and \<open>0.3\<close>, and the comparisons are written on the counts
  (\<open>u / w > 0.5\<close> is \<open>2 u > w\<close>, and \<open>u / w > 0.3\<close> is \<open>10 u > 3 w\<close>, which is what the
  float comparison decides for every text of fewer than \<open>10\<^sup>1\<^sup>5\<close> words).
\<close>

definition diversity_layer :: "ucd \<Rightarrow> ustr \<Rightarrow> scoring \<Rightarrow> scoring" where
  "diversity_layer U content = (\<lambda>(score, reasons).
     let words = filter (\<lambda>w. length w > 3) (py_split content);
         unique_words = set (map (py_lower U) words)
     in if words \<noteq> [] then
          (if 2 * card unique_words > length words
             then (score + 15, reasons @ [DiversityGood (card unique_words) (length words)])
           else if 10 * card unique_words > 3 * length words
             then (score + 8, reasons @ [DiversityModerate (card unique_words) (length words)])
           else (score, reasons @ [DiversityLow (card unique_words) (length words)]))
        else (score, reasons))"

definition has_errors :: "ustr \<Rightarrow> bool" where
  "has_errors content_lower = list_ex (\<lambda>indicator. py_in indicator content_lower) error_indicators"

definition error_layer :: "ustr \<Rightarrow> scoring \<Rightarrow> scoring" where
  "error_layer content_lower = (\<lambda>(score, reasons).
     if has_errors content_lower then (max 0 (score - 30), reasons @ [ErrorIndicators])
     else (score + 15, reasons @ [NoErrorIndicators]))"

definition list_layer :: "ucd \<Rightarrow> ustr \<Rightarrow> scoring \<Rightarrow> scoring" where
  "list_layer U content = (\<lambda>(score, reasons).
     if has_list_structure U content then (min 100 (score + 5), reasons @ [ListStructure])
     else (score, reasons))"

text \<open>The score and reasons after the two semantic steps and the diversity step, before the error scan.\<close>

definition before_error_scan :: "ucd \<Rightarrow> ustr \<Rightarrow> scoring" where
  "before_error_scan U content =
     diversity_layer U content
       (context_layer (py_lower U content)
         (critical_layer (py_lower U content)
           (structural_layer (length (py_strip content)) (0, []))))"

definition validate_and_score_job_content :: "ucd \<Rightarrow> ustr \<Rightarrow> validation_result" where
  "validate_and_score_job_content U content =
     (if content = [] \<or> length (py_strip content) = 0
        then ValidationResult False 0 [EmptyContent]
      else
        let content_lower = py_lower U content;
            (score, reasons) =
              list_layer U content (error_layer content_lower (before_error_scan U content))
        in ValidationResult (score \<ge> 30) score reasons)"


text \<open>
  Names for the quantities the claims speak of: the points of a length band, the points
  the diversity step adds, and the score that the error scan and the list bonus make of
  the running total.
\<close>

definition band_points :: "nat \<Rightarrow> int" where
  "band_points len =
     (if len < 500 then 0 else if len < 1000 then 10 else if len < 3000 then 20 else 30)"

definition diversity_points :: "ucd \<Rightarrow> ustr \<Rightarrow> int" where
  "diversity_points U content = fst (diversity_layer U content (0, []))"

definition semantic_points :: "ucd \<Rightarrow> ustr \<Rightarrow> int" where
  "semantic_points U content =
     critical_score (py_lower U content) + context_score (py_lower U content)"

definition final_score :: "ucd \<Rightarrow> ustr \<Rightarrow> int" where
  "final_score U content =
     (let b = fst (before_error_scan U content);
          e = (if has_errors (py_lower U content) then max 0 (b - 30) else b + 15)
      in if has_list_structure U content then min 100 (e + 5) else e)"

text \<open>The reason of a length band, and the reasons the diversity step appends.\<close>

definition band_reason :: "nat \<Rightarrow> reason" where
  "band_reason len =
     (if len < 500 then ContentTooShort len else if len < 1000 then SizeAcceptable
      else if len < 3000 then SizeAdequate else SizeExcellent)"

definition diversity_reasons :: "ucd \<Rightarrow> ustr \<Rightarrow> reason list" where
  "diversity_reasons U content = snd (diversity_layer U content (0, []))"

text \<open>The decision that a reason records.\<close>

datatype decision =
  LengthBand | CriticalCount | ContextCount | LexicalDiversity | ErrorScan | ListMarkup | Rejection

fun decision_of :: "reason \<Rightarrow> decision" where
  "decision_of (ContentTooShort n) = LengthBand"
| "decision_of SizeAcceptable = LengthBand"
| "decision_of SizeAdequate = LengthBand"
| "decision_of SizeExcellent = LengthBand"
| "decision_of (CriticalFound n m p) = CriticalCount"
| "decision_of (ContextFound n m p) = ContextCount"
| "decision_of (DiversityGood u w) = LexicalDiversity"
| "decision_of (DiversityModerate u w) = LexicalDiversity"
| "decision_of (DiversityLow u w) = LexicalDiversity"
| "decision_of ErrorIndicators = ErrorScan"
| "decision_of NoErrorIndicators = ErrorScan"
| "decision_of ListStructure = ListMarkup"
| "decision_of r = Rejection"

section \<open>The compatibility scorer\<close>

definition stopwords :: "ustr set" where
  "stopwords = set
     [ascii ''para'', ascii ''com'', ascii ''that'', ascii ''with'', ascii ''from'',
      ascii ''sobre'', ascii ''onde'', ascii ''quando'', ascii ''como'', ascii ''have'',
      ascii ''this'', ascii ''your'', ascii ''will'', ascii ''de'', ascii ''das'',
      ascii ''dos'', ascii ''the'', ascii ''and'', ascii ''por'', ascii ''uma'',
      ascii ''mais'', ascii ''than'', ascii ''then'', ascii ''elas'', ascii ''eles'',
      ascii ''possui'', ascii ''possuir'', ascii ''atividades'',
      ascii ''responsabilidades'', ascii ''requirements'', ascii ''requisitos'',
      ascii ''qualificacoes'']"

text \<open>\<open>unicodedata.normalize("NFKD", value).encode("ascii", "ignore").decode("ascii")\<close>\<close>

definition normalize_text :: "ucd \<Rightarrow> ustr \<Rightarrow> ustr" where
  "normalize_text U v = filter (\<lambda>c. c < 128) (nfkd U v)"

text \<open>
  \<open>re.findall(r"[a-z0-9\+#\.]{3,}", normalized)\<close>: the maximal runs of characters of the
  class that are at least three characters long, from left to right.
\<close>

definition token_char :: "cp \<Rightarrow> bool" where
  "token_char c \<longleftrightarrow> (97 \<le> c \<and> c \<le> 122) \<or> (48 \<le> c \<and> c \<le> 57) \<or> c = 43 \<or> c = 35 \<or> c = 46"

fun findall_from :: "ustr \<Rightarrow> ustr \<Rightarrow> ustr list" where
  "findall_from cur [] = (if 3 \<le> length cur then [cur] else [])"
| "findall_from cur (c # cs) =
     (if token_char c then findall_from (cur @ [c]) cs
      else if 3 \<le> length cur then cur # findall_from [] cs
      else findall_from [] cs)"

definition extract_tokens :: "ucd \<Rightarrow> ustr \<Rightarrow> ustr list" where
  "extract_tokens U v =
     (let normalized = py_lower U (normalize_text U v);
          tokens = findall_from [] normalized
      in filter (\<lambda>token. token \<notin> stopwords) tokens)"

text \<open>
  A \<open>Counter\<close> is a dictionary from keys to counts that keeps the keys in the order of
  their first insertion: an association list with distinct keys.
\<close>

fun counter_add :: "'a \<Rightarrow> ('a \<times> nat) list \<Rightarrow> ('a \<times> nat) list" where
  "counter_add k [] = [(k, 1)]"
| "counter_add k ((k', n) # kvs) =
     (if k = k' then (k', n + 1) # kvs else (k', n) # counter_add k kvs)"

definition Counter :: "'a list \<Rightarrow> ('a \<times> nat) list" where
  "Counter xs = foldl (\<lambda>c x. counter_add x c) [] xs"

text \<open>
  \<open>most_common(n)\<close>: the items by decreasing count, items of equal count in the order
  of the dictionary (both \<open>sorted(..., reverse=True)\<close> and \<open>heapq.nlargest\<close> keep it); all
  of them for \<open>None\<close>, the first \<open>n\<close> otherwise.
\<close>

definition most_common :: "nat option \<Rightarrow> ('a \<times> nat) list \<Rightarrow> ('a \<times> nat) list" where
  "most_common n c =
     (let ranked = sort_key (\<lambda>kv. - int (snd kv)) c
      in case n of None \<Rightarrow> ranked | Some m \<Rightarrow> take m ranked)"

text \<open>\<open>list(dict.fromkeys(tokens))\<close>: the tokens without repetition, in order of first occurrence.\<close>

definition dict_fromkeys :: "'a list \<Rightarrow> 'a list" where
  "dict_fromkeys xs = foldl (\<lambda>ks x. if x \<in> set ks then ks else ks @ [x]) [] xs"

definition extract_keywords :: "ucd \<Rightarrow> ustr \<Rightarrow> (ustr \<times> nat) list \<times> ustr list" where
  "extract_keywords U v = (let tokens = extract_tokens U v in (Counter tokens, dict_fromkeys tokens))"

text \<open>
  \<open>coverage_ratio\<close> is a float in the source. It is the quotient of two integers of at
  most 30, and the model keeps it as the exact rational. \<open>round(x)\<close> and \<open>round(x, 3)\<close>
  round to the nearest, ties to even; on the quotients that can occur the float
  computation and the exact one round to the same integer, respectively to the float
  nearest to the same number of thousandths, which the model writes as a rational.
\<close>

definition py_round :: "rat \<Rightarrow> int" where
  "py_round x =
     (let f = \<lfloor>x\<rfloor>; d = x - of_int f
      in if d < 1 / 2 then f else if 1 / 2 < d then f + 1 else if even f then f else f + 1)"

definition py_round3 :: "rat \<Rightarrow> rat" where
  "py_round3 x = of_int (py_round (x * 1000)) / 1000"

record compatibility_insights =
  score :: int
  label :: ustr
  strengths :: "ustr list"
  gaps :: "ustr list"
  coverage_ratio :: rat

definition CompatibilityInsights ::
  "int \<Rightarrow> ustr \<Rightarrow> ustr list \<Rightarrow> ustr list \<Rightarrow> rat \<Rightarrow> compatibility_insights" where
  "CompatibilityInsights sc l s g r =
     \<lparr> score = sc, label = l, strengths = s, gaps = g, coverage_ratio = r \<rparr>"

definition calculate_compatibility :: "ucd \<Rightarrow> ustr \<Rightarrow> ustr \<Rightarrow> compatibility_insights" where
  "calculate_compatibility U cv job_description =
     (let (job_counter, job_tokens) = extract_keywords U job_description;
          (cv_counter, cv_tokens) = extract_keywords U cv
      in
      if job_counter = [] then
        CompatibilityInsights 50 (ascii ''Dados insuficientes'') [] [] 0
      else
        let ranked_job_keywords = map fst (most_common (Some 30) job_counter);
            job_keywords = set ranked_job_keywords;
            cv_keywords = set cv_tokens
        in
        if card job_keywords < 5 \<or> sum_list (map snd job_counter) < 10 then
          CompatibilityInsights 50 (ascii ''Dados insuficientes'') []
            (take 5 ranked_job_keywords) 0
        else
          let matched = job_keywords \<inter> cv_keywords;
              missing = job_keywords - cv_keywords;
              coverage_ratio = of_nat (card matched) / of_nat (max 1 (card job_keywords));
              match_points = min 60 (int (card matched) * 12);
              coverage_points = min 40 (py_round (coverage_ratio * 40));
              score = max 5 (match_points + coverage_points);
              label = (if score \<ge> 75 then ascii ''Alta compatibilidade''
                       else if score \<ge> 45 then ascii ''Compatibilidade moderada''
                       else ascii ''Compatibilidade baixa'');
              strengths = take 5 (filter (\<lambda>kw. kw \<in> matched)
                                    (map fst (most_common None job_counter)));
              gaps = take 5 (filter (\<lambda>kw. kw \<in> missing)
                               (map fst (most_common None job_counter)))
          in CompatibilityInsights score label strengths gaps (py_round3 coverage_ratio))"

section \<open>The parser of the generated content\<close>

definition sections :: "(string \<times> ustr) list" where
  "sections =
     [(''optimizedCv'', ascii ''### OPTIMIZED CV ###''),
      (''coverLetter'', ascii ''### COVER LETTER ###''),
      (''networkingMessage'', ascii ''### NETWORKING MESSAGE ###''),
      (''interviewTips'', ascii ''### INTERVIEW TIPS ###'')]"

text \<open>\<open>s.find(sub, start)\<close>: the first index from \<open>start\<close> on at which \<open>sub\<close> occurs; \<open>None\<close> stands for \<open>-1\<close>.\<close>

fun find_from :: "ustr \<Rightarrow> nat \<Rightarrow> ustr \<Rightarrow> nat option" where
  "find_from sub i [] = (if sub = [] then Some i else None)"
| "find_from sub i (c # cs) =
     (if prefix sub (c # cs) then Some i else find_from sub (Suc i) cs)"

definition py_find :: "ustr \<Rightarrow> ustr \<Rightarrow> nat \<Rightarrow> nat option" where
  "py_find s sub start = (if length s < start then None else find_from sub start (drop start s))"

text \<open>\<open>s[a:b]\<close> for indices that are not negative.\<close>

definition py_slice :: "ustr \<Rightarrow> nat \<Rightarrow> nat \<Rightarrow> ustr" where
  "py_slice s a b = take (b - a) (drop a s)"

definition placeholder :: "ustr \<Rightarrow> ustr" where
  "placeholder start_marker =
     ascii ''Erro: Se'' @ [231, 227] @ ascii ''o '' @ start_marker @ ascii '' n'' @ [227]
       @ ascii ''o encontrada''"

definition end_index_of :: "ustr \<Rightarrow> ustr option \<Rightarrow> nat \<Rightarrow> nat" where
  "end_index_of remaining_text end_marker start_index =
     (case end_marker of
        None \<Rightarrow> length remaining_text
      | Some m \<Rightarrow>
          (case py_find remaining_text m start_index of
             None \<Rightarrow> length remaining_text
           | Some e \<Rightarrow> e))"

text \<open>The loop over the keys, each with its marker; the end marker is the marker of the next key.\<close>

fun parse_sections ::
  "ustr \<Rightarrow> (string \<times> ustr) list \<Rightarrow> (string \<rightharpoonup> ustr) \<Rightarrow> (string \<rightharpoonup> ustr)" where
  "parse_sections remaining_text [] parsed_content = parsed_content"
| "parse_sections remaining_text ((key, start_marker) # rest) parsed_content =
     (let end_marker = (case rest of [] \<Rightarrow> None | (next_key, m) # later \<Rightarrow> Some m)
      in case py_find remaining_text start_marker 0 of
           None \<Rightarrow>
             parse_sections remaining_text rest
               (parsed_content(key \<mapsto> placeholder start_marker))
         | Some start_index \<Rightarrow>
             let end_index = end_index_of remaining_text end_marker start_index;
                 section_text =
                   py_strip (py_slice remaining_text (start_index + length start_marker) end_index)
             in parse_sections remaining_text rest (parsed_content(key \<mapsto> section_text)))"

definition parse_generated_content :: "ustr \<Rightarrow> (string \<rightharpoonup> ustr)" where
  "parse_generated_content response_text = parse_sections response_text sections Map.empty"


text \<open>
  The facts about the Unicode tables that the proofs below rely on: the ASCII range has
  the ASCII case mapping, white space has no case, and NFKD leaves ASCII text unchanged.
\<close>

definition ucd_wf :: "ucd \<Rightarrow> bool" where
  "ucd_wf U \<longleftrightarrow>
     (\<forall>c<128. lower_full U c = [if 65 \<le> c \<and> c \<le> 90 then c + 32 else c]) \<and>
     (\<forall>c. is_space c \<longrightarrow> lower_full U c = [c]) \<and>
     (\<forall>s. (\<forall>c\<in>set s. c < 128) \<longrightarrow> nfkd U s = s)"

(*DEFS-END*)

section \<open>Facts about the string operations\<close>

lemma ascii_ucd_wf: "ucd_wf ascii_ucd"
  by (auto simp: ucd_wf_def ascii_ucd_def is_space_def)

lemma py_strip_Nil [simp]: "py_strip [] = []"
  by (simp add: py_strip_def)

lemma py_strip_Nil_iff: "py_strip s = [] \<longleftrightarrow> (\<forall>c\<in>set s. is_space c)"
proof
  assume "py_strip s = []"
  then have a: "\<forall>x\<in>set (dropWhile is_space s). is_space x"
    by (simp add: py_strip_def)
  have "dropWhile is_space s = []"
  proof (rule ccontr)
    assume n: "dropWhile is_space s \<noteq> []"
    then have "\<not> is_space (hd (dropWhile is_space s))" by (rule hd_dropWhile)
    with a n show False by simp
  qed
  then show "\<forall>c\<in>set s. is_space c" by simp
next
  assume "\<forall>c\<in>set s. is_space c"
  then have d: "dropWhile is_space s = []" by simp
  show "py_strip s = []" unfolding py_strip_def d by simp
qed

lemma py_lower_Nil [simp]: "py_lower U [] = []"
  by (simp add: py_lower_def)

section \<open>The details validator: generic terms and score values\<close>

lemma lower_alnum_not_space: "lower_alnum c \<Longrightarrow> \<not> is_space c"
  by (auto simp: lower_alnum_def is_space_def)

text \<open>A field whose normalized form is not empty is present: the absence test lets it pass.\<close>

lemma normalized_present:
  assumes "normalize_generic_term U t \<noteq> []"
  shows "t \<noteq> [] \<and> length (py_strip (py_lower U t)) \<noteq> 0"
proof -
  from assms obtain c where c: "c \<in> set (py_lower U t)" "lower_alnum c"
    unfolding normalize_generic_term_def by (metis filter_False)
  then have "\<not> is_space c" by (simp add: lower_alnum_not_space)
  with c have "py_strip (py_lower U t) \<noteq> []" by (auto simp: py_strip_Nil_iff)
  moreover from assms have "t \<noteq> []" by (auto simp: normalize_generic_term_def)
  ultimately show ?thesis by simp
qed

lemma normalize_head:
  assumes "ucd_wf U" "97 \<le> c" "c \<le> 122"
  shows "normalize_generic_term U (c # cs) \<noteq> []"
proof -
  have "lower_full U c = [c]" using assms by (simp add: ucd_wf_def)
  then show ?thesis using assms
    by (simp add: normalize_generic_term_def py_lower_def lower_alnum_def)
qed

text \<open>Every blacklist entry starts with a lower-case ASCII letter, so none normalizes to the empty string.\<close>

lemma generics_nonempty:
  assumes "ucd_wf U" "n \<in> normalized_generics U"
  shows "n \<noteq> []"
proof -
  from assms(2) obtain t where t: "t \<in> set generic_terms" "n = normalize_generic_term U t"
    by (auto simp: normalized_generics_def)
  from t(1) obtain c cs where "t = c # cs" "97 \<le> c" "c \<le> 122"
    by (auto simp: generic_terms_def ascii_def)
  with t(2) show ?thesis using normalize_head [OF assms(1), of c cs] by simp
qed

lemma details_title_generic:
  assumes "ucd_wf U" "normalize_generic_term U job_title \<in> normalized_generics U"
  shows "validate_and_score_job_details U job_title company =
           ValidationResult False 0 [TitleGeneric job_title]"
proof -
  have "normalize_generic_term U job_title \<noteq> []"
    using assms by (auto dest: generics_nonempty)
  then have "job_title \<noteq> []" "length (py_strip (py_lower U job_title)) \<noteq> 0"
    using normalized_present by blast+
  with assms(2) show ?thesis
    by (simp add: validate_and_score_job_details_def Let_def)
qed

lemma details_reasons_title_generic:
  assumes "TitleGeneric job_title
             \<in> set (reasons (validate_and_score_job_details U job_title company))"
  shows "normalize_generic_term U job_title \<in> normalized_generics U"
  using assms
  by (auto simp: validate_and_score_job_details_def Let_def ValidationResult_def
           split: if_splits)

lemma details_reasons_company_generic:
  assumes "ucd_wf U"
  shows "CompanyGeneric company
           \<in> set (reasons (validate_and_score_job_details U job_title company))
     \<longleftrightarrow> py_strip (py_lower U job_title) \<noteq> [] \<and>
         normalize_generic_term U job_title \<notin> normalized_generics U \<and>
         normalize_generic_term U company \<in> normalized_generics U"
proof (cases "normalize_generic_term U company \<in> normalized_generics U")
  case True
  then have "normalize_generic_term U company \<noteq> []"
    using assms by (auto dest: generics_nonempty)
  then have "company \<noteq> []" "length (py_strip (py_lower U company)) \<noteq> 0"
    using normalized_present by blast+
  with True show ?thesis
    by (auto simp: validate_and_score_job_details_def Let_def ValidationResult_def
           split: if_splits)
next
  case False
  then show ?thesis
    by (auto simp: validate_and_score_job_details_def Let_def ValidationResult_def
           split: if_splits)
qed

lemmas details_eval = validate_and_score_job_details_def ascii_def ascii_ucd_def py_lower_def
  py_strip_def is_space_def normalize_generic_term_def normalized_generics_def
  generic_terms_def lower_alnum_def ValidationResult_def

lemma companhia_abc_not_generic:
  "normalize_generic_term ascii_ucd (ascii ''Companhia ABC'') = ascii ''companhiaabc''"
  "normalize_generic_term ascii_ucd (ascii ''Companhia ABC'') \<notin> normalized_generics ascii_ucd"
  by (simp_all add: details_eval)

lemma not_found_generic:
  "normalize_generic_term ascii_ucd (ascii ''Not Found'') = ascii ''notfound''"
  "normalize_generic_term ascii_ucd (ascii ''Not Found'') \<in> normalized_generics ascii_ucd"
  by (simp_all add: details_eval)

text \<open>
  C4. A field is rejected as generic exactly when its normalized form (lower-cased, only
  \<open>a\<close>-\<open>z\<close> and \<open>0\<close>-\<open>9\<close> kept) is equal to a normalized blacklist entry: the title's
  generic reason is returned if and only if the normalized title is in the set, and the
  company's if and only if the title was present and not generic and the normalized
  company is in the set. Containing an entry is not enough: the company
  \<open>Companhia ABC\<close> normalizes to \<open>companhiaabc\<close>, which is no entry, and is never rejected as
  generic. A title whose normalized form is an entry makes the validator return
  \<open>(False, 0, [title reason])\<close> whatever the company is.
\<close>

theorem details_generic_exact_match:
  assumes "ucd_wf U"
  shows "(normalize_generic_term U job_title \<in> normalized_generics U \<longrightarrow>
            (\<forall>company. validate_and_score_job_details U job_title company =
               ValidationResult False 0 [TitleGeneric job_title])) \<and>
         (TitleGeneric job_title
            \<in> set (reasons (validate_and_score_job_details U job_title company))
            \<longleftrightarrow> normalize_generic_term U job_title \<in> normalized_generics U) \<and>
         (CompanyGeneric company
            \<in> set (reasons (validate_and_score_job_details U job_title company))
            \<longleftrightarrow> py_strip (py_lower U job_title) \<noteq> [] \<and>
                normalize_generic_term U job_title \<notin> normalized_generics U \<and>
                normalize_generic_term U company \<in> normalized_generics U) \<and>
         CompanyGeneric (ascii ''Companhia ABC'')
            \<notin> set (reasons (validate_and_score_job_details ascii_ucd job_title
                               (ascii ''Companhia ABC'')))"
proof (intro conjI)
  show "normalize_generic_term U job_title \<in> normalized_generics U \<longrightarrow>
            (\<forall>company. validate_and_score_job_details U job_title company =
               ValidationResult False 0 [TitleGeneric job_title])"
    using details_title_generic [OF assms] by blast
  show "TitleGeneric job_title
            \<in> set (reasons (validate_and_score_job_details U job_title company))
            \<longleftrightarrow> normalize_generic_term U job_title \<in> normalized_generics U"
    using details_title_generic [OF assms, of job_title company]
      details_reasons_title_generic [of job_title U company]
    by (auto simp: ValidationResult_def)
  show "CompanyGeneric company
            \<in> set (reasons (validate_and_score_job_details U job_title company))
            \<longleftrightarrow> py_strip (py_lower U job_title) \<noteq> [] \<and>
                normalize_generic_term U job_title \<notin> normalized_generics U \<and>
                normalize_generic_term U company \<in> normalized_generics U"
    by (rule details_reasons_company_generic [OF assms])
  show "CompanyGeneric (ascii ''Companhia ABC'')
            \<notin> set (reasons (validate_and_score_job_details ascii_ucd job_title
                               (ascii ''Companhia ABC'')))"
    using details_reasons_company_generic [OF ascii_ucd_wf, of "ascii ''Companhia ABC''" job_title]
      companhia_abc_not_generic(2) by simp
qed

text \<open>
  The scenario of the specification: the title \<open>Not Found\<close> normalizes to the entry
  \<open>notfound\<close>, and with the company \<open>Acme\<close> the result is the title's generic rejection.
\<close>

theorem details_generic_exact_match_witness:
  "ucd_wf ascii_ucd \<and>
   normalize_generic_term ascii_ucd (ascii ''Not Found'') \<in> normalized_generics ascii_ucd \<and>
   validate_and_score_job_details ascii_ucd (ascii ''Not Found'') (ascii ''Acme'') =
     ValidationResult False 0 [TitleGeneric (ascii ''Not Found'')]"
  using details_generic_exact_match [OF ascii_ucd_wf, of "ascii ''Not Found''" "ascii ''Acme''"]
    ascii_ucd_wf not_found_generic(2)
  by blast

text \<open>
  C9 as stated fails: the title \<open>Not Found\<close> (9 characters) and the company \<open>Acme\<close>
  (4 characters) are both inside their length bands, and the result is not valid, because
  the title is a generic term.
\<close>

theorem details_band_counterexample:
  "length (py_strip (py_lower ascii_ucd (ascii ''Not Found''))) = 9 \<and>
   length (py_strip (py_lower ascii_ucd (ascii ''Acme''))) = 4 \<and>
   is_valid (validate_and_score_job_details ascii_ucd (ascii ''Not Found'') (ascii ''Acme''))
     = False \<and>
   validation_result.score (validate_and_score_job_details ascii_ucd (ascii ''Not Found'') (ascii ''Acme'')) = 0"
  by (simp add: details_eval)

text \<open>
  C9, amended. The score of the details validator is 0, 50 or 100, never 90; the result
  is valid if and only if the score is 100; and the score is 100 if and only if neither
  normalized field is a blacklist entry, the title (lower-cased and stripped) has 5 to 100
  characters and the company 2 to 100. (A field inside its band is in particular present.)
\<close>

theorem details_score_values:
  "validation_result.score (validate_and_score_job_details U job_title company) \<in> {0, 50, 100} \<and>
   validation_result.score (validate_and_score_job_details U job_title company) \<noteq> 90 \<and>
   (is_valid (validate_and_score_job_details U job_title company)
      \<longleftrightarrow> validation_result.score (validate_and_score_job_details U job_title company) = 100) \<and>
   (validation_result.score (validate_and_score_job_details U job_title company) = 100
      \<longleftrightarrow> normalize_generic_term U job_title \<notin> normalized_generics U \<and>
          5 \<le> length (py_strip (py_lower U job_title)) \<and>
          length (py_strip (py_lower U job_title)) \<le> 100 \<and>
          normalize_generic_term U company \<notin> normalized_generics U \<and>
          2 \<le> length (py_strip (py_lower U company)) \<and>
          length (py_strip (py_lower U company)) \<le> 100)"
  by (auto simp: validate_and_score_job_details_def Let_def ValidationResult_def)

theorem details_score_values_witness:
  "normalize_generic_term ascii_ucd (ascii ''Software Engineer'') \<notin> normalized_generics ascii_ucd \<and>
   length (py_strip (py_lower ascii_ucd (ascii ''Software Engineer''))) = 17 \<and>
   normalize_generic_term ascii_ucd (ascii ''Companhia ABC'') \<notin> normalized_generics ascii_ucd \<and>
   length (py_strip (py_lower ascii_ucd (ascii ''Companhia ABC''))) = 13 \<and>
   validation_result.score (validate_and_score_job_details ascii_ucd (ascii ''Software Engineer'')
            (ascii ''Companhia ABC'')) = 100 \<and>
   is_valid (validate_and_score_job_details ascii_ucd (ascii ''Software Engineer'')
            (ascii ''Companhia ABC''))"
proof -
  have a: "normalize_generic_term ascii_ucd (ascii ''Software Engineer'')
             \<notin> normalized_generics ascii_ucd"
    and b: "length (py_strip (py_lower ascii_ucd (ascii ''Software Engineer''))) = 17"
    and c: "length (py_strip (py_lower ascii_ucd (ascii ''Companhia ABC''))) = 13"
    by (simp_all add: details_eval)
  show ?thesis
    using details_score_values [of ascii_ucd "ascii ''Software Engineer''" "ascii ''Companhia ABC''"]
      a b c companhia_abc_not_generic(2)
    by simp
qed

section \<open>The content validator: score and reasons\<close>

lemma structural_layer_fst: "fst (structural_layer len p) = fst p + band_points len"
  by (cases p) (simp add: structural_layer_def band_points_def)

lemma critical_layer_fst: "fst (critical_layer cl p) = fst p + critical_score cl"
  by (cases p) (simp add: critical_layer_def)

lemma context_layer_fst: "fst (context_layer cl p) = fst p + context_score cl"
  by (cases p) (simp add: context_layer_def)

lemma diversity_layer_fst: "fst (diversity_layer U content p) = fst p + diversity_points U content"
  by (cases p) (simp add: diversity_layer_def diversity_points_def Let_def)

lemma structural_layer_snd: "snd (structural_layer len p) = snd p @ [band_reason len]"
  by (cases p) (simp add: structural_layer_def band_reason_def)

lemma critical_layer_snd:
  "snd (critical_layer cl p) =
     snd p @ [CriticalFound (found_in critical_keywords cl) (length critical_keywords) (critical_score cl)]"
  by (cases p) (simp add: critical_layer_def)

lemma context_layer_snd:
  "snd (context_layer cl p) =
     snd p @ [ContextFound (found_in context_keywords cl) (length context_keywords) (context_score cl)]"
  by (cases p) (simp add: context_layer_def)

lemma diversity_layer_snd: "snd (diversity_layer U content p) = snd p @ diversity_reasons U content"
  by (cases p) (simp add: diversity_layer_def diversity_reasons_def Let_def)

lemma before_error_scan_fst:
  "fst (before_error_scan U content) =
     band_points (length (py_strip content)) + semantic_points U content
       + diversity_points U content"
  by (simp add: before_error_scan_def structural_layer_fst critical_layer_fst
      context_layer_fst diversity_layer_fst semantic_points_def)

lemma before_error_scan_snd:
  "snd (before_error_scan U content) =
     [band_reason (length (py_strip content)),
      CriticalFound (found_in critical_keywords (py_lower U content)) (length critical_keywords)
        (critical_score (py_lower U content)),
      ContextFound (found_in context_keywords (py_lower U content)) (length context_keywords)
        (context_score (py_lower U content))]
     @ diversity_reasons U content"
  by (simp add: before_error_scan_def structural_layer_snd critical_layer_snd
      context_layer_snd diversity_layer_snd)

lemma band_points_range: "0 \<le> band_points n \<and> band_points n \<le> 30"
  by (simp add: band_points_def)

lemma critical_score_range: "0 \<le> critical_score cl \<and> critical_score cl \<le> 20"
  by (simp add: critical_score_def)

lemma context_score_range: "0 \<le> context_score cl \<and> context_score cl \<le> 20"
  by (simp add: context_score_def)

lemma diversity_points_range: "0 \<le> diversity_points U c \<and> diversity_points U c \<le> 15"
  by (simp add: diversity_points_def diversity_layer_def Let_def)

lemma before_error_scan_range:
  "0 \<le> fst (before_error_scan U content) \<and> fst (before_error_scan U content) \<le> 85"
  using band_points_range [of "length (py_strip content)"]
    critical_score_range [of "py_lower U content"]
    context_score_range [of "py_lower U content"]
    diversity_points_range [of U content]
  by (simp add: before_error_scan_fst semantic_points_def)

lemma py_strip_nonblank: "py_strip content \<noteq> [] \<Longrightarrow> content \<noteq> []"
  by (auto simp: py_strip_def)

lemma content_result_nonblank:
  assumes "py_strip content \<noteq> []"
  shows "validate_and_score_job_content U content =
           ValidationResult (final_score U content \<ge> 30) (final_score U content)
             (snd (before_error_scan U content)
                @ [if has_errors (py_lower U content) then ErrorIndicators else NoErrorIndicators]
                @ (if has_list_structure U content then [ListStructure] else []))"
proof -
  obtain b rs where b: "before_error_scan U content = (b, rs)"
    by (cases "before_error_scan U content")
  show ?thesis using assms py_strip_nonblank [OF assms]
    by (simp add: validate_and_score_job_content_def final_score_def b error_layer_def
        list_layer_def Let_def)
qed

lemma content_result_blank:
  assumes "py_strip content = []"
  shows "validate_and_score_job_content U content = ValidationResult False 0 [EmptyContent]"
  using assms by (simp add: validate_and_score_job_content_def)

lemma final_score_range: "0 \<le> final_score U content \<and> final_score U content \<le> 100"
  using before_error_scan_range [of U content]
  by (auto simp: final_score_def Let_def)

lemma content_score_range:
  "0 \<le> validation_result.score (validate_and_score_job_content U content) \<and>
   validation_result.score (validate_and_score_job_content U content) \<le> 100"
proof (cases "py_strip content = []")
  case True
  then show ?thesis
    by (simp add: content_result_blank ValidationResult_def)
next
  case False
  then show ?thesis using final_score_range [of U content]
    by (simp add: content_result_nonblank ValidationResult_def)
qed

lemma diversity_reasons_decisions:
  "map decision_of (diversity_reasons U content) =
     (if filter (\<lambda>w. 3 < length w) (py_split content) \<noteq> [] then [LexicalDiversity] else [])"
  by (simp add: diversity_reasons_def diversity_layer_def Let_def)

lemma band_reason_decision [simp]: "decision_of (band_reason n) = LengthBand"
  by (simp add: band_reason_def)

text \<open>
  C7, amended. For content that is not empty or white space only, the reasons record, in
  this order: the length band, the critical-keyword count, the context-keyword count, the
  lexical diversity if the content has a word of more than three characters (none
  otherwise), the error scan, and the list markup if it was detected. For every content,
  the reasons are not empty when the result is not valid.
\<close>

theorem content_reasons_by_decision:
  "(py_strip content \<noteq> [] \<longrightarrow>
      map decision_of (reasons (validate_and_score_job_content U content)) =
        [LengthBand, CriticalCount, ContextCount]
        @ (if filter (\<lambda>w. 3 < length w) (py_split content) \<noteq> [] then [LexicalDiversity] else [])
        @ [ErrorScan]
        @ (if has_list_structure U content then [ListMarkup] else [])) \<and>
   (\<not> is_valid (validate_and_score_job_content U content) \<longrightarrow>
      reasons (validate_and_score_job_content U content) \<noteq> [])"
proof (cases "py_strip content = []")
  case True
  then show ?thesis by (simp add: content_result_blank ValidationResult_def)
next
  case False
  then show ?thesis
    by (simp add: content_result_nonblank ValidationResult_def before_error_scan_snd
        diversity_reasons_decisions)
qed

lemmas content_eval = validate_and_score_job_content_def before_error_scan_def
  structural_layer_def critical_layer_def context_layer_def diversity_layer_def
  error_layer_def list_layer_def has_errors_def has_list_structure_def found_in_def
  critical_score_def context_score_def critical_keywords_def context_keywords_def
  error_indicators_def py_split_def py_lower_def py_strip_def is_space_def ascii_def
  ascii_ucd_def ValidationResult_def Let_def

text \<open>
  C7 as stated fails: the content \<open>abc\<close> is not blank and has no word of more than three
  characters, so the diversity step records nothing, and the reasons have four entries.
\<close>

theorem content_reasons_counterexample:
  "py_strip (ascii ''abc'') = ascii ''abc'' \<and>
   validate_and_score_job_content ascii_ucd (ascii ''abc'') =
     ValidationResult False 15
       [ContentTooShort 3, CriticalFound 0 8 0, ContextFound 0 12 0, NoErrorIndicators]"
  by (simp add: content_eval)

theorem content_reasons_by_decision_witness:
  "py_strip (ascii ''Requirements: error handling'') \<noteq> [] \<and>
   map decision_of (reasons (validate_and_score_job_content ascii_ucd
       (ascii ''Requirements: error handling''))) =
     [LengthBand, CriticalCount, ContextCount, LexicalDiversity, ErrorScan] \<and>
   \<not> is_valid (validate_and_score_job_content ascii_ucd (ascii ''Requirements: error handling'')) \<and>
   reasons (validate_and_score_job_content ascii_ucd (ascii ''Requirements: error handling'')) \<noteq> []"
proof -
  have a: "py_strip (ascii ''Requirements: error handling'') \<noteq> []"
    by (simp add: py_strip_def ascii_def is_space_def)
  have b: "filter (\<lambda>w. 3 < length w) (py_split (ascii ''Requirements: error handling'')) \<noteq> []"
    by (simp add: py_split_def ascii_def is_space_def)
  have c: "\<not> has_list_structure ascii_ucd (ascii ''Requirements: error handling'')"
    by (simp add: has_list_structure_def ascii_def is_space_def ascii_ucd_def)
  have d: "\<not> is_valid (validate_and_score_job_content ascii_ucd (ascii ''Requirements: error handling''))"
    by (simp add: content_eval)
  show ?thesis
    using content_reasons_by_decision [of "ascii ''Requirements: error handling''" ascii_ucd] a b c d
    by simp
qed

end
